theory Spec2Isabelle
  imports Complex_Main "HOL-Library.AList"
begin

section \<open>Python values, exceptions and responses\<close>

text \<open>
  Exceptions are values. The built-in ones are those the modelled statements raise
  themselves; \<open>Raised msg\<close> stands for any exception (a subclass of \<open>Exception\<close>)
  thrown by a collaborator: the database, the HTTP client, the language-model calls,
  the file storage.
\<close>

datatype exn =
    IndexError
  | KeyError string
  | TypeError
  | AttributeError
  | UnicodeDecodeError
  | LookupError
  | FileNotFoundError
  | IsADirectoryError
  | Raised string

text \<open>
  What \<open>response.json()\<close> and \<open>request.get_json()\<close> return: \<open>None\<close>, booleans,
  numbers, strings, lists and dicts. A dict is an association list in insertion order
  (keys of a parsed JSON object are unique). The code never computes with a number, it
  only tests one for truth; the model keeps the integers.
\<close>

datatype json =
    JNull
  | JBool bool
  | JNum int
  | JStr string
  | JArr "json list"
  | JObj "(string \<times> json) list"

text \<open>\<open>str.lower()\<close>, on the ASCII letters.\<close>

definition lower_char :: "char \<Rightarrow> char" where
  "lower_char c =
     (case map_of (zip ''ABCDEFGHIJKLMNOPQRSTUVWXYZ'' ''abcdefghijklmnopqrstuvwxyz'') c of
        Some l \<Rightarrow> l
      | None \<Rightarrow> c)"

definition lower :: "string \<Rightarrow> string" where
  "lower s = map lower_char s"

text \<open>\<open>needle in haystack\<close> for two strings: the substring test.\<close>

fun is_substring :: "string \<Rightarrow> string \<Rightarrow> bool" where
  "is_substring p [] = (p = [])"
| "is_substring p (c # cs) = (take (length p) (c # cs) = p \<or> is_substring p cs)"

text \<open>
  \<open>key in data\<close> for a string \<open>key\<close>: key membership on a dict, element membership
  on a list, the substring test on a string, \<open>TypeError\<close> on anything else.
\<close>

fun py_contains :: "json \<Rightarrow> string \<Rightarrow> exn + bool" where
  "py_contains (JObj kvs) k = Inr (map_of kvs k \<noteq> None)"
| "py_contains (JArr xs) k = Inr (JStr k \<in> set xs)"
| "py_contains (JStr s) k = Inr (is_substring k s)"
| "py_contains _ k = Inl TypeError"

text \<open>\<open>data[key]\<close> for a string \<open>key\<close>: only a dict can be subscripted by a string.\<close>

fun py_getitem :: "json \<Rightarrow> string \<Rightarrow> exn + json" where
  "py_getitem (JObj kvs) k =
     (case map_of kvs k of None \<Rightarrow> Inl (KeyError k) | Some v \<Rightarrow> Inr v)"
| "py_getitem _ k = Inl TypeError"

text \<open>\<open>data[key] = v\<close>: an existing key keeps its place, a new one goes last.\<close>

fun py_setitem :: "json \<Rightarrow> string \<Rightarrow> json \<Rightarrow> exn + json" where
  "py_setitem (JObj kvs) k v = Inr (JObj (AList.update k v kvs))"
| "py_setitem _ k v = Inl TypeError"

text \<open>
  \<open>for x in value\<close>: the elements of a list, the keys of a dict, the characters of a
  string; nothing else is iterable.
\<close>

fun py_iter :: "json \<Rightarrow> exn + json list" where
  "py_iter (JArr xs) = Inr xs"
| "py_iter (JObj kvs) = Inr (map (\<lambda>kv. JStr (fst kv)) kvs)"
| "py_iter (JStr s) = Inr (map (\<lambda>c. JStr [c]) s)"
| "py_iter _ = Inl TypeError"

text \<open>\<open>value.lower()\<close>: only strings have the method.\<close>

fun py_lower :: "json \<Rightarrow> exn + string" where
  "py_lower (JStr s) = Inr (lower s)"
| "py_lower _ = Inl AttributeError"

text \<open>Truthiness, as \<open>if value:\<close> and \<open>not value\<close> test it.\<close>

fun truthy :: "json \<Rightarrow> bool" where
  "truthy JNull = False"
| "truthy (JBool b) = b"
| "truthy (JNum n) = (n \<noteq> 0)"
| "truthy (JStr s) = (s \<noteq> [])"
| "truthy (JArr xs) = (xs \<noteq> [])"
| "truthy (JObj kvs) = (kvs \<noteq> [])"

text \<open>\<open>payload.get(key)\<close>: \<open>None\<close> for a missing key; only dicts have \<open>get\<close>.\<close>

fun py_get :: "json \<Rightarrow> string \<Rightarrow> json \<Rightarrow> exn + json" where
  "py_get (JObj kvs) k d = Inr (case map_of kvs k of None \<Rightarrow> d | Some v \<Rightarrow> v)"
| "py_get _ k d = Inl AttributeError"

section \<open>The dataset search filter (\<open>filter_resources\<close>)\<close>

text \<open>
  The generator inside \<open>any(...)\<close>: resources are visited in order, each one's
  \<open>['format'].lower()\<close> is compared with the elements of \<open>['csv']\<close>, and the scan stops
  at the first match, so a later malformed resource is never looked at.
\<close>

fun any_csv :: "json list \<Rightarrow> exn + bool" where
  "any_csv [] = Inr False"
| "any_csv (resource # rest) =
     (case py_getitem resource ''format'' of
        Inl e \<Rightarrow> Inl e
      | Inr fmt \<Rightarrow>
          (case py_lower fmt of
             Inl e \<Rightarrow> Inl e
           | Inr l \<Rightarrow> if l \<in> set [''csv''] then Inr True else any_csv rest))"

text \<open>The loop over the packages, with its accumulator \<open>filtered_results\<close>.\<close>

fun filter_loop :: "json list \<Rightarrow> json list \<Rightarrow> exn + json list" where
  "filter_loop filtered_results [] = Inr filtered_results"
| "filter_loop filtered_results (package # rest) =
     (case py_getitem package ''resources'' of
        Inl e \<Rightarrow> Inl e
      | Inr resources \<Rightarrow>
          (case py_iter resources of
             Inl e \<Rightarrow> Inl e
           | Inr rs \<Rightarrow>
               (case any_csv rs of
                  Inl e \<Rightarrow> Inl e
                | Inr True \<Rightarrow> filter_loop (filtered_results @ [package]) rest
                | Inr False \<Rightarrow> filter_loop filtered_results rest)))"

definition filter_resources :: "json \<Rightarrow> exn + json" where
  "filter_resources data =
     (case py_contains data ''result'' of
        Inl e \<Rightarrow> Inl e
      | Inr False \<Rightarrow> Inr data
      | Inr True \<Rightarrow>
          (case py_getitem data ''result'' of
             Inl e \<Rightarrow> Inl e
           | Inr result \<Rightarrow>
               (case py_getitem result ''results'' of
                  Inl e \<Rightarrow> Inl e
                | Inr results \<Rightarrow>
                    (case py_iter results of
                       Inl e \<Rightarrow> Inl e
                     | Inr packages \<Rightarrow>
                         (case filter_loop [] packages of
                            Inl e \<Rightarrow> Inl e
                          | Inr filtered_results \<Rightarrow>
                              (case py_setitem result ''results'' (JArr filtered_results) of
                                 Inl e \<Rightarrow> Inl e
                               | Inr result' \<Rightarrow> py_setitem data ''result'' result'))))))"

text \<open>
  An HTTP response of the application: a JSON body and a status code.
  \<open>ErrorBody msg\<close> is \<open>{'error': msg}\<close>; \<open>ErrorExn prefix e\<close> is
  \<open>{'error': f'{prefix}: {str(e)}'}\<close>, the text of the exception left symbolic;
  \<open>MessagesBody ms\<close> is \<open>{'messages': [{'role': r, 'content': c}, ...]}\<close>;
  \<open>UploadBody upload_id sample\<close> is \<open>{'upload_id': ..., 'sample_data': ...}\<close>.
\<close>

datatype body =
    ErrorBody string
  | ErrorExn string exn
  | JsonBody json
  | MessagesBody "(string \<times> string) list"
  | UploadBody string json

type_synonym response = "body \<times> nat"

text \<open>
  What the code reads of a \<open>requests\<close> response: \<open>status_code\<close>, \<open>content\<close>,
  \<open>headers['content-type']\<close> (absent: \<open>None\<close>) and the outcome of \<open>.json()\<close>.
\<close>

record http_response =
  status_code :: nat
  content :: string
  header_content_type :: "string option"
  json_body :: "exn + json"

text \<open>
  \<open>f'{value}'\<close>: a string is inserted as it is; \<open>str_of\<close> is Python's \<open>str\<close> on the
  other values.
\<close>

definition py_format :: "(json \<Rightarrow> string) \<Rightarrow> json \<Rightarrow> string" where
  "py_format str_of v = (case v of JStr s \<Rightarrow> s | _ \<Rightarrow> str_of v)"

section \<open>The \<open>/search\<close> endpoint\<close>

text \<open>
  The body of the \<open>try\<close> block. \<open>get_json\<close> is the outcome of
  \<open>request.get_json()\<close>, \<open>requests_get\<close> the HTTP client (it raises, or returns a
  response whatever its status).
\<close>

definition search_try ::
  "(json \<Rightarrow> string) \<Rightarrow> (json \<Rightarrow> exn + http_response) \<Rightarrow> exn + json \<Rightarrow> exn + response" where
  "search_try str_of requests_get get_json =
     (case get_json of
        Inl e \<Rightarrow> Inl e
      | Inr payload \<Rightarrow>
          (case py_get payload ''query'' JNull of
             Inl e \<Rightarrow> Inl e
           | Inr query \<Rightarrow>
               if \<not> truthy query then Inr (ErrorBody ''No query provided'', 400)
               else
                 (case requests_get
                         (JStr (''https://data.humdata.org/api/3/action/package_search?q='' @
                                py_format str_of query)) of
                    Inl e \<Rightarrow> Inl e
                  | Inr response \<Rightarrow>
                      (case json_body response of
                         Inl e \<Rightarrow> Inl e
                       | Inr data \<Rightarrow>
                           (case filter_resources data of
                              Inl e \<Rightarrow> Inl e
                            | Inr filtered_data \<Rightarrow> Inr (JsonBody filtered_data, 200))))))"

definition search ::
  "(json \<Rightarrow> string) \<Rightarrow> (json \<Rightarrow> exn + http_response) \<Rightarrow> exn + json \<Rightarrow> response" where
  "search str_of requests_get get_json =
     (case search_try str_of requests_get get_json of
        Inl e \<Rightarrow> (ErrorExn ''Error in search'' e, 500)
      | Inr r \<Rightarrow> r)"

section \<open>The \<open>/analyze_data/<upload_id>\<close> endpoint\<close>

text \<open>
  The collaborators of the endpoint, each raising or returning:
  \<open>get_db().cursor()\<close>; the store's answer to a statement that a cursor executes and
  fetches (\<open>cursor_execute\<close>: the rows, each a tuple of strings); \<open>get_sql_query\<close>, \<open>execute_query\<close>,
  \<open>get_assistant_response\<close> and \<open>generate_charts\<close> of the modules \<open>data_processing\<close>
  and \<open>database\<close>. \<open>'r\<close> is the type of query results.
\<close>

record 'r analyze_env =
  db_cursor :: "exn option"
  cursor_execute :: "string \<Rightarrow> exn + string list list"
  get_sql_query :: "json \<Rightarrow> string \<Rightarrow> string \<Rightarrow> exn + string option"
  execute_query :: "string \<Rightarrow> exn + 'r"
  get_assistant_response :: "json \<Rightarrow> string \<Rightarrow> 'r \<Rightarrow> exn + string"
  generate_charts :: "'r \<Rightarrow> exn + string option"
  str_of :: "json \<Rightarrow> string"

text \<open>\<open>[column[0] for column in columns]\<close>\<close>

fun first_items :: "string list list \<Rightarrow> exn + string list" where
  "first_items [] = Inr []"
| "first_items (column # rest) =
     (case column of
        [] \<Rightarrow> Inl IndexError
      | c # _ \<Rightarrow> (case first_items rest of Inl e \<Rightarrow> Inl e | Inr cs \<Rightarrow> Inr (c # cs)))"

text \<open>\<open>sep.join(items)\<close>\<close>

fun join :: "string \<Rightarrow> string list \<Rightarrow> string" where
  "join sep [] = []"
| "join sep [x] = x"
| "join sep (x # y # ys) = x @ sep @ join sep (y # ys)"

text \<open>Truthiness of a value that is \<open>None\<close> or a string.\<close>

fun truthy_str :: "string option \<Rightarrow> bool" where
  "truthy_str None = False"
| "truthy_str (Some s) = (s \<noteq> [])"

text \<open>The branch taken when a query was synthesized: execute, narrate, chart.\<close>

definition analyze_answer :: "'r analyze_env \<Rightarrow> json \<Rightarrow> string \<Rightarrow> exn + response" where
  "analyze_answer env user_query cleaned_sql_query =
     (case execute_query env cleaned_sql_query of
        Inl e \<Rightarrow> Inl e
      | Inr query_results \<Rightarrow>
          (case get_assistant_response env user_query cleaned_sql_query query_results of
             Inl e \<Rightarrow> Inl e
           | Inr assistant_response \<Rightarrow>
               (case generate_charts env query_results of
                  Inl e \<Rightarrow> Inl e
                | Inr chart_string \<Rightarrow>
                    (case chart_string of
                       None \<Rightarrow> Inr (MessagesBody [(''assistant'', assistant_response)], 200)
                     | Some c \<Rightarrow>
                         if c \<noteq> []
                         then Inr (MessagesBody [(''assistant'', assistant_response), (''chart'', c)], 200)
                         else Inr (MessagesBody [(''assistant'', assistant_response)], 200)))))"

text \<open>What follows \<open>cursor.fetchall()\<close>, given the store's answer.\<close>

definition analyze_columns ::
  "'r analyze_env \<Rightarrow> json \<Rightarrow> string \<Rightarrow> exn + string list list \<Rightarrow> exn + response" where
  "analyze_columns env user_query upload_id fetched =
     (case fetched of
        Inl e \<Rightarrow> Inl e
      | Inr columns \<Rightarrow>
          (case first_items columns of
             Inl e \<Rightarrow> Inl e
           | Inr names \<Rightarrow>
               (case get_sql_query env user_query (join '', '' names) upload_id of
                  Inl e \<Rightarrow> Inl e
                | Inr cleaned_sql_query \<Rightarrow>
                    (case cleaned_sql_query of
                       None \<Rightarrow>
                         Inr (MessagesBody
                                [(''assistant'',
                                  ''Could not generate an SQL query from the user's question: '' @
                                  py_format (str_of env) user_query)], 200)
                     | Some q \<Rightarrow>
                         if q \<noteq> [] then analyze_answer env user_query q
                         else
                           Inr (MessagesBody
                                  [(''assistant'',
                                    ''Could not generate an SQL query from the user's question: '' @
                                    py_format (str_of env) user_query)], 200)))))"

text \<open>
  The cursor that \<open>get_db().cursor()\<close> returns, seen from the store: the statements
  it has been given, oldest first. A new cursor has been given none.
  \<open>cursor.execute(statement)\<close> followed by \<open>cursor.fetchall()\<close> hands the statement to
  the store, which records it and answers.
\<close>

type_synonym cursor = "string list"

definition new_cursor :: cursor where
  "new_cursor = []"

definition execute_fetchall ::
  "'r analyze_env \<Rightarrow> cursor \<Rightarrow> string \<Rightarrow> (exn + string list list) \<times> cursor" where
  "execute_fetchall env cursor statement = (cursor_execute env statement, cursor @ [statement])"

text \<open>
  The \<open>try\<close> block: its outcome, and the cursor as the store has seen it when the
  block ends (no cursor, or one that was given nothing, is the empty list).
\<close>

definition analyze_try ::
  "'r analyze_env \<Rightarrow> exn + json \<Rightarrow> string \<Rightarrow> (exn + response) \<times> cursor" where
  "analyze_try env get_json upload_id =
     (case get_json of
        Inl e \<Rightarrow> (Inl e, [])
      | Inr payload \<Rightarrow>
          (case py_get payload ''query'' JNull of
             Inl e \<Rightarrow> (Inl e, [])
           | Inr user_query \<Rightarrow>
               if \<not> truthy user_query then (Inr (ErrorBody ''No query provided'', 400), [])
               else
                 (case db_cursor env of
                    Some e \<Rightarrow> (Inl e, [])
                  | None \<Rightarrow>
                      (case execute_fetchall env new_cursor (''DESCRIBE '' @ upload_id @ '';'') of
                         (columns, cursor) \<Rightarrow>
                           (analyze_columns env user_query upload_id columns, cursor)))))"

definition analyze_data_endpoint ::
  "'r analyze_env \<Rightarrow> exn + json \<Rightarrow> string \<Rightarrow> response \<times> cursor" where
  "analyze_data_endpoint env get_json upload_id =
     (case analyze_try env get_json upload_id of
        (Inl e, cursor) \<Rightarrow> ((ErrorExn ''Error analyzing data'' e, 500), cursor)
      | (Inr r, cursor) \<Rightarrow> (r, cursor))"

section \<open>The file type sniffer (\<open>allowed_file\<close>)\<close>

text \<open>
  An uploaded file (werkzeug's \<open>FileStorage\<close>): its filename and the bytes of its
  stream. \<open>file.read()\<close> returns the bytes and \<open>file.seek(0)\<close> rewinds, so the
  stream is the same after the call as before.
\<close>

record file_storage =
  filename :: string
  stream :: string

text \<open>
  The libraries behind the sniffer: \<open>chardet.detect(blob)['encoding']\<close> (a name or
  \<open>None\<close>), \<open>blob.decode(encoding)\<close> (the exception it raises, \<open>None\<close> when it
  decodes) and \<open>magic.from_buffer(blob, mime=True)\<close>.
\<close>

record sniffer =
  chardet_detect :: "string \<Rightarrow> string option"
  decode :: "string \<Rightarrow> string \<Rightarrow> exn option"
  magic_from_buffer :: "string \<Rightarrow> string"

definition ALLOWED_MIME_TYPES :: "string set" where
  "ALLOWED_MIME_TYPES = {''text/csv''}"

text \<open>\<open>s.rsplit(sep, 1)\<close>: split once, at the last separator.\<close>

definition rsplit1 :: "char \<Rightarrow> string \<Rightarrow> string list" where
  "rsplit1 sep s =
     (if sep \<in> set s
      then [rev (tl (dropWhile (\<lambda>c. c \<noteq> sep) (rev s))), rev (takeWhile (\<lambda>c. c \<noteq> sep) (rev s))]
      else [s])"

text \<open>\<open>xs[1]\<close>\<close>

definition index1 :: "'a list \<Rightarrow> exn + 'a" where
  "index1 xs = (case xs of _ # x # _ \<Rightarrow> Inr x | _ \<Rightarrow> Inl IndexError)"

text \<open>
  The \<open>csv\<close> branch: \<open>Inr True\<close> is \<open>return True\<close>, \<open>Inr False\<close> is the \<open>pass\<close> of
  the handler for \<open>UnicodeDecodeError\<close>; any other exception of \<open>decode\<close> is not caught,
  and \<open>decode(None)\<close> raises \<open>TypeError\<close>.
\<close>

definition csv_probe :: "sniffer \<Rightarrow> string \<Rightarrow> exn + bool" where
  "csv_probe sn file_blob =
     (case chardet_detect sn file_blob of
        None \<Rightarrow> Inl TypeError
      | Some detected_encoding \<Rightarrow>
          (case decode sn file_blob detected_encoding of
             None \<Rightarrow> Inr True
           | Some e \<Rightarrow> if e = UnicodeDecodeError then Inr False else Inl e))"

definition mime_check :: "sniffer \<Rightarrow> string \<Rightarrow> bool" where
  "mime_check sn file_blob = (magic_from_buffer sn file_blob \<in> ALLOWED_MIME_TYPES)"

definition allowed_file :: "sniffer \<Rightarrow> file_storage \<Rightarrow> exn + bool" where
  "allowed_file sn file =
     (case index1 (rsplit1 CHR ''.'' (filename file)) of
        Inl e \<Rightarrow> Inl e
      | Inr ext \<Rightarrow>
          (let file_extension = lower ext; file_blob = stream file in
           if file_extension = ''csv''
           then (case csv_probe sn file_blob of
                   Inl e \<Rightarrow> Inl e
                 | Inr True \<Rightarrow> Inr True
                 | Inr False \<Rightarrow> Inr (mime_check sn file_blob))
           else Inr (mime_check sn file_blob)))"

text \<open>\<open>file and allowed_file(file)\<close>: a \<open>FileStorage\<close> is true when its filename is.\<close>

definition file_and_allowed :: "sniffer \<Rightarrow> file_storage \<Rightarrow> exn + bool" where
  "file_and_allowed sn file =
     (if filename file = [] then Inr False else allowed_file sn file)"

section \<open>The upload endpoints\<close>

text \<open>
  The file system under the upload folder: what each path is, if it exists.
  \<open>os.remove\<close> removes a file and raises on a missing path and on a directory;
  \<open>os.path.join\<close> is the POSIX one.
\<close>

datatype entry = File | Directory

type_synonym files = "string \<rightharpoonup> entry"

definition os_remove :: "files \<Rightarrow> string \<Rightarrow> exn + files" where
  "os_remove fs path =
     (case fs path of
        None \<Rightarrow> Inl FileNotFoundError
      | Some Directory \<Rightarrow> Inl IsADirectoryError
      | Some File \<Rightarrow> Inr (fs(path := None)))"

definition path_join :: "string \<Rightarrow> string \<Rightarrow> string" where
  "path_join a b =
     (if take 1 b = ''/'' then b
      else if a = [] \<or> take 1 (rev a) = ''/'' then a @ b
      else a @ ''/'' @ b)"

text \<open>\<open>url.split("/")[-1]\<close>: what follows the last slash.\<close>

definition last_segment :: "string \<Rightarrow> string" where
  "last_segment url = rev (takeWhile (\<lambda>c. c \<noteq> CHR ''/'') (rev url))"

text \<open>
  The sample returned by \<open>clean_and_store_data\<close>: whether the frame is empty, and the
  outcome of turning it into JSON records.
\<close>

record dataframe =
  empty :: bool
  to_json :: "exn + json"

text \<open>
  The collaborators of the upload endpoints: the sniffer's libraries,
  \<open>secure_filename\<close>, \<open>app.config['UPLOAD_FOLDER']\<close> (unset: \<open>None\<close>), \<open>file.save(path)\<close>
  (the exception the write raises, if any), \<open>get_db()\<close>, the HTTP
  client and \<open>clean_and_store_data\<close>, which reads the file at the path and leaves the
  file system as it is (the \<open>os.remove\<close> after it in \<open>/upload\<close> relies on the file still
  being there).
\<close>

record upload_env =
  libs :: sniffer
  secure_filename :: "string \<Rightarrow> string"
  UPLOAD_FOLDER :: "string option"
  file_save :: "string \<Rightarrow> exn option"
  get_db :: "exn option"
  requests_get :: "json \<Rightarrow> exn + http_response"
  clean_and_store_data :: "string \<Rightarrow> file_storage \<Rightarrow> exn + (string option \<times> dataframe option)"
  url_str_of :: "json \<Rightarrow> string"

text \<open>
  \<open>file.save(file_path)\<close>: writing to a directory raises; otherwise the collaborator
  says whether the write raises, and after a write that does not the path is a file.
\<close>

definition save :: "upload_env \<Rightarrow> files \<Rightarrow> string \<Rightarrow> exn option \<times> files" where
  "save env fs file_path =
     (case fs file_path of
        Some Directory \<Rightarrow> (Some IsADirectoryError, fs)
      | _ \<Rightarrow>
          (case file_save env file_path of
             Some e \<Rightarrow> (Some e, fs)
           | None \<Rightarrow> (None, fs(file_path \<mapsto> File))))"

text \<open>
  \<open>file.save(file_path); conn = get_db(); clean_and_store_data(file_path, file, conn)\<close>:
  the outcome and the file system afterwards.
\<close>

definition save_and_store ::
  "upload_env \<Rightarrow> files \<Rightarrow> string \<Rightarrow> file_storage \<Rightarrow>
   (exn + (string option \<times> dataframe option)) \<times> files" where
  "save_and_store env fs file_path file =
     (case save env fs file_path of
        (Some e, fs1) \<Rightarrow> (Inl e, fs1)
      | (None, fs1) \<Rightarrow>
          (case get_db env of
             Some e \<Rightarrow> (Inl e, fs1)
           | None \<Rightarrow> (clean_and_store_data env file_path file, fs1)))"

text \<open>The answer built from the upload identifier and the sample.\<close>

definition upload_response :: "string option \<Rightarrow> dataframe option \<Rightarrow> exn + response" where
  "upload_response upload_id sample_data =
     (case upload_id of
        None \<Rightarrow> Inr (ErrorBody ''Error processing file'', 400)
      | Some uid \<Rightarrow>
          (case sample_data of
             None \<Rightarrow> Inl AttributeError
           | Some df \<Rightarrow>
               if empty df then Inr (ErrorBody ''Error processing file'', 400)
               else (case to_json df of
                       Inl e \<Rightarrow> Inl e
                     | Inr records \<Rightarrow> Inr (UploadBody uid records, 200))))"

text \<open>
  \<open>/upload\<close>, the outer \<open>try\<close> block. The inner \<open>try\<close> has a handler that answers 500
  and a \<open>finally\<close> clause that removes the file; an exception of \<open>os.remove\<close> itself
  replaces that answer and reaches the outer handler.
\<close>

definition upload_file_try ::
  "upload_env \<Rightarrow> files \<Rightarrow> file_storage option \<Rightarrow> (exn + response) \<times> files" where
  "upload_file_try env fs request_file =
     (case request_file of
        None \<Rightarrow> (Inr (ErrorBody ''No file part in the request'', 400), fs)
      | Some file \<Rightarrow>
          if filename file = [] then (Inr (ErrorBody ''No selected file'', 400), fs)
          else
            (case file_and_allowed (libs env) file of
               Inl e \<Rightarrow> (Inl e, fs)
             | Inr False \<Rightarrow> (Inr (ErrorBody ''Unsupported file type'', 400), fs)
             | Inr True \<Rightarrow>
                 (case UPLOAD_FOLDER env of
                    None \<Rightarrow> (Inl (KeyError ''UPLOAD_FOLDER''), fs)
                  | Some folder \<Rightarrow>
                      (let file_path = path_join folder (secure_filename env (filename file));
                           (outcome, fs1) = save_and_store env fs file_path file
                       in case os_remove fs1 file_path of
                            Inl e \<Rightarrow> (Inl e, fs1)
                          | Inr fs2 \<Rightarrow>
                              (case outcome of
                                 Inl e \<Rightarrow> (Inr (ErrorExn ''Error saving file'' e, 500), fs2)
                               | Inr (upload_id, sample_data) \<Rightarrow>
                                   (upload_response upload_id sample_data, fs2))))))"

definition upload_file ::
  "upload_env \<Rightarrow> files \<Rightarrow> file_storage option \<Rightarrow> response \<times> files" where
  "upload_file env fs request_file =
     (case upload_file_try env fs request_file of
        (Inl e, fs') \<Rightarrow> ((ErrorExn ''Unhandled exception'' e, 500), fs')
      | (Inr r, fs') \<Rightarrow> (r, fs'))"

text \<open>
  \<open>/upload_from_url\<close>: the file is built from the downloaded bytes and the last
  segment of the URL; nothing removes the saved file.
\<close>

definition upload_from_url_try ::
  "upload_env \<Rightarrow> files \<Rightarrow> exn + json \<Rightarrow> (exn + response) \<times> files" where
  "upload_from_url_try env fs request_json =
     (case request_json of
        Inl e \<Rightarrow> (Inl e, fs)
      | Inr payload \<Rightarrow>
          (case py_get payload ''url'' (JStr []) of
             Inl e \<Rightarrow> (Inl e, fs)
           | Inr url \<Rightarrow>
               (case requests_get env url of
                  Inl e \<Rightarrow> (Inl e, fs)
                | Inr r \<Rightarrow>
                    if status_code r \<noteq> 200
                    then (Inr (ErrorBody (''Error downloading file from '' @
                                          py_format (url_str_of env) url), 500), fs)
                    else
                      (case url of
                         JStr u \<Rightarrow>
                           (case header_content_type r of
                              None \<Rightarrow> (Inl (KeyError ''content-type''), fs)
                            | Some ct \<Rightarrow>
                                (let file = \<lparr>filename = last_segment u, stream = content r\<rparr> in
                                 case file_and_allowed (libs env) file of
                                   Inl e \<Rightarrow> (Inl e, fs)
                                 | Inr False \<Rightarrow> (Inr (ErrorBody ''Unsupported file type'', 400), fs)
                                 | Inr True \<Rightarrow>
                                     (case UPLOAD_FOLDER env of
                                        None \<Rightarrow> (Inl (KeyError ''UPLOAD_FOLDER''), fs)
                                      | Some folder \<Rightarrow>
                                          (let file_path =
                                                 path_join folder (secure_filename env (filename file));
                                               (outcome, fs1) = save_and_store env fs file_path file
                                           in case outcome of
                                                Inl e \<Rightarrow> (Inl e, fs1)
                                              | Inr (upload_id, sample_data) \<Rightarrow>
                                                  (upload_response upload_id sample_data, fs1)))))
                       | _ \<Rightarrow> (Inl AttributeError, fs)))))"

definition upload_from_url ::
  "upload_env \<Rightarrow> files \<Rightarrow> exn + json \<Rightarrow> response \<times> files" where
  "upload_from_url env fs request_json =
     (case upload_from_url_try env fs request_json of
        (Inl e, fs') \<Rightarrow> ((ErrorExn ''Unhandled exception'' e, 500), fs')
      | (Inr r, fs') \<Rightarrow> (r, fs'))"

section \<open>The JSON encoder (\<open>JSONEncoder\<close>)\<close>

text \<open>
  A Python float: a number, not-a-number, or an infinity (\<open>True\<close>: the negative one).
\<close>

datatype pyfloat = FNum real | FNaN | FInf bool

text \<open>
  The objects the encoder tells apart, by class. The first seven are the types the
  base encoder writes by itself: \<open>None\<close>, \<open>bool\<close>, \<open>int\<close>, \<open>float\<close>, \<open>str\<close>,
  \<open>list\<close> (or \<open>tuple\<close>) and \<open>dict\<close>. Then \<open>NaT\<close>; a NumPy scalar of a class that is
  none of those types (\<open>np.float32\<close>, \<open>np.int64\<close>, \<open>np.datetime64\<close>, ...), with what
  \<open>np.isnan\<close> answers on it (or raises) and its \<open>item()\<close>; an \<open>np.float64\<close>, which is
  a NumPy scalar and an instance of \<open>float\<close> at once; a pandas \<open>Timestamp\<close>, a
  \<open>datetime\<close> and a \<open>date\<close>, each holding a library value of type \<open>'t\<close>; and an
  object of any other class, by the name of the class.
\<close>

datatype 't pyobj =
    PyNone
  | PyBool bool
  | PyInt int
  | PyFloat pyfloat
  | PyStr string
  | PyList "'t pyobj list"
  | PyDict "(string \<times> 't pyobj) list"
  | NaT
  | NpGeneric "exn + bool" "'t pyobj"
  | NpFloat64 pyfloat
  | Timestamp 't
  | Datetime 't
  | Date 't
  | Other string

text \<open>\<open>json.JSONEncoder.default\<close>, the base class's hook: it always raises.\<close>

definition base_default :: "'t pyobj \<Rightarrow> exn + 't pyobj" where
  "base_default obj = Inl TypeError"

text \<open>
  The hook \<open>JSONEncoder.default\<close>, in the order of its \<open>isinstance\<close> tests;
  \<open>isoformat\<close> is the library's method. On an \<open>np.float64\<close>, \<open>np.isnan\<close> is true
  exactly for not-a-number and \<open>item()\<close> is the Python float. \<open>default_items\<close> is the
  dict comprehension of the \<open>dict\<close> branch: the values go through the hook in order,
  and the first exception ends it.
\<close>

fun default :: "('t \<Rightarrow> string) \<Rightarrow> 't pyobj \<Rightarrow> exn + 't pyobj"
  and default_items ::
    "('t \<Rightarrow> string) \<Rightarrow> (string \<times> 't pyobj) list \<Rightarrow> exn + (string \<times> 't pyobj) list" where
  "default isoformat NaT = Inr PyNone"
| "default isoformat (NpGeneric isnan item) =
     (case isnan of
        Inl e \<Rightarrow> Inl e
      | Inr True \<Rightarrow> Inr PyNone
      | Inr False \<Rightarrow> Inr item)"
| "default isoformat (NpFloat64 f) = (if f = FNaN then Inr PyNone else Inr (PyFloat f))"
| "default isoformat (Timestamp t) = Inr (PyStr (isoformat t))"
| "default isoformat (Datetime t) = Inr (PyStr (isoformat t))"
| "default isoformat (Date t) = Inr (PyStr (isoformat t))"
| "default isoformat (PyDict kvs) =
     (case default_items isoformat kvs of
        Inl e \<Rightarrow> Inl e
      | Inr kvs' \<Rightarrow> Inr (PyDict kvs'))"
| "default isoformat obj = base_default obj"
| "default_items isoformat [] = Inr []"
| "default_items isoformat ((key, v) # rest) =
     (case default isoformat v of
        Inl e \<Rightarrow> Inl e
      | Inr v' \<Rightarrow>
          (case default_items isoformat rest of
             Inl e \<Rightarrow> Inl e
           | Inr rest' \<Rightarrow> Inr ((key, v') # rest')))"

text \<open>
  What the encoder writes: a JSON document, with the tokens \<open>NaN\<close>, \<open>Infinity\<close> and
  \<open>-Infinity\<close> that Python's encoder emits for the floats that JSON cannot express
  (\<open>allow_nan\<close> is left at its default).
\<close>

datatype encoded =
    ENull
  | EBool bool
  | EInt int
  | EFloat real
  | ENaN
  | EInfinity bool
  | EStr string
  | EArr "encoded list"
  | EObj "(string \<times> encoded) list"

definition floatstr :: "pyfloat \<Rightarrow> encoded" where
  "floatstr f = (case f of FNum x \<Rightarrow> EFloat x | FNaN \<Rightarrow> ENaN | FInf negative \<Rightarrow> EInfinity negative)"

text \<open>The items of a list or dict are written in order; the first exception ends it.\<close>

fun collect :: "(exn + 'a) list \<Rightarrow> exn + 'a list" where
  "collect [] = Inr []"
| "collect (x # xs) =
     (case x of
        Inl e \<Rightarrow> Inl e
      | Inr v \<Rightarrow> (case collect xs of Inl e \<Rightarrow> Inl e | Inr vs \<Rightarrow> Inr (v # vs)))"

text \<open>
  How many hook calls and containers an object holds at most: the measure under which
  encoding terminates.
\<close>

fun weight :: "'t pyobj \<Rightarrow> nat" where
  "weight (PyList xs) = Suc (sum_list (map weight xs))"
| "weight (PyDict kvs) = Suc (sum_list (map (\<lambda>kv. weight (snd kv)) kvs))"
| "weight (NpGeneric isnan item) = Suc (weight item)"
| "weight NaT = 1"
| "weight (Timestamp t) = 1"
| "weight (Datetime t) = 1"
| "weight (Date t) = 1"
| "weight (Other c) = 1"
| "weight obj = 0"

text \<open>
  \<open>JSONEncoder().encode\<close>, the class of the application: the walk is the base class's
  (\<open>json.JSONEncoder\<close>), the hook is the one above. The walk tests the types it writes
  by itself first, with \<open>isinstance\<close>: an \<open>np.float64\<close> is a \<open>float\<close> and is written as
  one, and a dict is walked; neither reaches the hook. Anything else goes to the hook,
  and what the hook returns is encoded in its place.
\<close>

function (sequential) encode :: "('t \<Rightarrow> string) \<Rightarrow> 't pyobj \<Rightarrow> exn + encoded" where
  "encode isoformat PyNone = Inr ENull"
| "encode isoformat (PyBool b) = Inr (EBool b)"
| "encode isoformat (PyInt n) = Inr (EInt n)"
| "encode isoformat (PyFloat f) = Inr (floatstr f)"
| "encode isoformat (NpFloat64 f) = Inr (floatstr f)"
| "encode isoformat (PyStr s) = Inr (EStr s)"
| "encode isoformat (PyList xs) =
     (case collect (map (encode isoformat) xs) of
        Inl e \<Rightarrow> Inl e
      | Inr items \<Rightarrow> Inr (EArr items))"
| "encode isoformat (PyDict kvs) =
     (case collect (map (\<lambda>kv. encode isoformat (snd kv)) kvs) of
        Inl e \<Rightarrow> Inl e
      | Inr items \<Rightarrow> Inr (EObj (zip (map fst kvs) items)))"
| "encode isoformat obj =
     (case default isoformat obj of
        Inl e \<Rightarrow> Inl e
      | Inr returned \<Rightarrow> encode isoformat returned)"
  by pat_completeness auto
termination
proof (relation "measure (\<lambda>(isoformat, obj). weight obj)")
  show "wf (measure (\<lambda>(isoformat :: 't \<Rightarrow> string, obj). weight obj))"
    by simp
next
  fix isoformat :: "'t \<Rightarrow> string" and xs :: "'t pyobj list" and x
  assume "x \<in> set xs"
  then have "weight x \<le> sum_list (map weight xs)"
    by (induction xs) auto
  then show "((isoformat, x), (isoformat, PyList xs)) \<in> measure (\<lambda>(isoformat, obj). weight obj)"
    by simp
next
  fix isoformat :: "'t \<Rightarrow> string" and kvs :: "(string \<times> 't pyobj) list" and kv
  assume "kv \<in> set kvs"
  then have "weight (snd kv) \<le> sum_list (map (\<lambda>kv. weight (snd kv)) kvs)"
    by (induction kvs) auto
  then show "((isoformat, snd kv), (isoformat, PyDict kvs)) \<in> measure (\<lambda>(isoformat, obj). weight obj)"
    by simp
qed (auto simp: base_default_def split: sum.splits bool.splits)

text \<open>
  \<open>json.JSONEncoder().encode\<close>, the base encoder: the same walk with the base hook.
\<close>

function (sequential) base_encode :: "'t pyobj \<Rightarrow> exn + encoded" where
  "base_encode PyNone = Inr ENull"
| "base_encode (PyBool b) = Inr (EBool b)"
| "base_encode (PyInt n) = Inr (EInt n)"
| "base_encode (PyFloat f) = Inr (floatstr f)"
| "base_encode (NpFloat64 f) = Inr (floatstr f)"
| "base_encode (PyStr s) = Inr (EStr s)"
| "base_encode (PyList xs) =
     (case collect (map base_encode xs) of
        Inl e \<Rightarrow> Inl e
      | Inr items \<Rightarrow> Inr (EArr items))"
| "base_encode (PyDict kvs) =
     (case collect (map (\<lambda>kv. base_encode (snd kv)) kvs) of
        Inl e \<Rightarrow> Inl e
      | Inr items \<Rightarrow> Inr (EObj (zip (map fst kvs) items)))"
| "base_encode obj =
     (case base_default obj of
        Inl e \<Rightarrow> Inl e
      | Inr returned \<Rightarrow> base_encode returned)"
  by pat_completeness auto
termination
proof (relation "measure weight")
  show "wf (measure (weight :: 't pyobj \<Rightarrow> nat))"
    by simp
next
  fix xs :: "'t pyobj list" and x
  assume "x \<in> set xs"
  then have "weight x \<le> sum_list (map weight xs)"
    by (induction xs) auto
  then show "(x, PyList xs) \<in> measure weight"
    by simp
next
  fix kvs :: "(string \<times> 't pyobj) list" and kv
  assume "kv \<in> set kvs"
  then have "weight (snd kv) \<le> sum_list (map (\<lambda>kv. weight (snd kv)) kvs)"
    by (induction kvs) auto
  then show "(snd kv, PyDict kvs) \<in> measure weight"
    by simp
qed (auto simp: base_default_def)

section \<open>The specification's vocabulary\<close>

text \<open>
  The declared format of a resource and the resources of a package, read off the
  catalog's JSON, and the property the search proxy selects on: a package has a CSV
  resource when the format of one of its resources, lowercased, equals \<open>csv\<close>.
\<close>

definition format_of :: "json \<Rightarrow> string" where
  "format_of resource =
     (case resource of
        JObj kvs \<Rightarrow> (case map_of kvs ''format'' of Some (JStr s) \<Rightarrow> s | _ \<Rightarrow> [])
      | _ \<Rightarrow> [])"

definition resources_of :: "json \<Rightarrow> json list" where
  "resources_of package =
     (case package of
        JObj kvs \<Rightarrow> (case map_of kvs ''resources'' of Some (JArr rs) \<Rightarrow> rs | _ \<Rightarrow> [])
      | _ \<Rightarrow> [])"

definition has_csv_resource :: "json \<Rightarrow> bool" where
  "has_csv_resource package = list_ex (\<lambda>r. lower (format_of r) = ''csv'') (resources_of package)"

text \<open>
  A package list as the catalog delivers it: every package is an object whose
  \<open>resources\<close> is a list of objects, each declaring a \<open>format\<close> string.
\<close>

definition wf_resource :: "json \<Rightarrow> bool" where
  "wf_resource resource =
     (case resource of
        JObj kvs \<Rightarrow> (case map_of kvs ''format'' of Some (JStr s) \<Rightarrow> True | _ \<Rightarrow> False)
      | _ \<Rightarrow> False)"

definition wf_package :: "json \<Rightarrow> bool" where
  "wf_package package =
     (case package of
        JObj kvs \<Rightarrow>
          (case map_of kvs ''resources'' of Some (JArr rs) \<Rightarrow> list_all wf_resource rs | _ \<Rightarrow> False)
      | _ \<Rightarrow> False)"

text \<open>
  The classes for which the interface names an encoding rule (not-a-time, NumPy
  scalars, timestamps, datetimes, dates), and the class of dicts.
\<close>

definition listed_class :: "'t pyobj \<Rightarrow> bool" where
  "listed_class obj =
     (case obj of
        NaT \<Rightarrow> True
      | NpGeneric isnan item \<Rightarrow> True
      | NpFloat64 f \<Rightarrow> True
      | Timestamp t \<Rightarrow> True
      | Datetime t \<Rightarrow> True
      | Date t \<Rightarrow> True
      | _ \<Rightarrow> False)"

definition is_dict :: "'t pyobj \<Rightarrow> bool" where
  "is_dict obj = (case obj of PyDict kvs \<Rightarrow> True | _ \<Rightarrow> False)"

text \<open>
  An object that holds, at any depth, no not-a-time, no NumPy scalar outside the
  types the base encoder writes, no timestamp, datetime or date.
\<close>

fun plain :: "'t pyobj \<Rightarrow> bool" where
  "plain (PyList xs) = list_all plain xs"
| "plain (PyDict kvs) = list_all (\<lambda>kv. plain (snd kv)) kvs"
| "plain NaT = False"
| "plain (NpGeneric isnan item) = False"
| "plain (Timestamp t) = False"
| "plain (Datetime t) = False"
| "plain (Date t) = False"
| "plain obj = True"

section \<open>Concrete runs\<close>

text \<open>Sniffer libraries: one that decodes everything, two that decode nothing, one that
  detects no encoding and one that detects an encoding Python has no codec for; a file
  of four bytes that are no text.\<close>

definition sniffer_text :: sniffer where
  "sniffer_text =
     \<lparr>chardet_detect = (\<lambda>blob. Some ''ascii''),
      decode = (\<lambda>blob encoding. None),
      magic_from_buffer = (\<lambda>blob. ''text/plain'')\<rparr>"

definition sniffer_binary :: sniffer where
  "sniffer_binary =
     \<lparr>chardet_detect = (\<lambda>blob. Some ''utf-8''),
      decode = (\<lambda>blob encoding. Some UnicodeDecodeError),
      magic_from_buffer = (\<lambda>blob. ''application/octet-stream'')\<rparr>"

definition sniffer_csv_mime :: sniffer where
  "sniffer_csv_mime =
     \<lparr>chardet_detect = (\<lambda>blob. Some ''utf-8''),
      decode = (\<lambda>blob encoding. Some UnicodeDecodeError),
      magic_from_buffer = (\<lambda>blob. ''text/csv'')\<rparr>"

definition sniffer_undetected :: sniffer where
  "sniffer_undetected =
     \<lparr>chardet_detect = (\<lambda>blob. None),
      decode = (\<lambda>blob encoding. Some LookupError),
      magic_from_buffer = (\<lambda>blob. ''application/octet-stream'')\<rparr>"

definition sniffer_unknown_codec :: sniffer where
  "sniffer_unknown_codec = sniffer_undetected\<lparr>chardet_detect := (\<lambda>blob. Some ''no-such-codec'')\<rparr>"

definition binary_csv :: file_storage where
  "binary_csv = \<lparr>filename = ''report.csv'', stream = [CHR 0x00, CHR 0x01, CHR 0x02, CHR 0x03]\<rparr>"

definition csv_file :: "string \<Rightarrow> file_storage" where
  "csv_file name = \<lparr>filename = name, stream = ''name,amount''\<rparr>"

text \<open>A catalog answer with four packages, an answer without a result, and the answer
  of the catalog to a query it cannot parse (status 409, an error body).\<close>

definition package :: "string \<Rightarrow> string list \<Rightarrow> json" where
  "package name formats =
     JObj [(''name'', JStr name),
           (''resources'', JArr (map (\<lambda>f. JObj [(''format'', JStr f), (''url'', JStr name)]) formats))]"

definition catalog_packages :: "json list" where
  "catalog_packages =
     [package ''census'' [''XLSX'', ''CSV''],
      package ''maps'' [''GeoJSON'', ''PDF''],
      package ''empty'' [],
      package ''population'' [''csv'']]"

definition catalog_result :: "(string \<times> json) list" where
  "catalog_result = [(''count'', JNum 4), (''results'', JArr catalog_packages)]"

definition catalog :: "(string \<times> json) list" where
  "catalog = [(''success'', JBool True), (''result'', JObj catalog_result)]"

definition lenient_packages :: "json list" where
  "lenient_packages =
     [JObj [(''resources'', JArr [JObj [(''format'', JStr ''Csv'')], JNull])],
      package ''maps'' [''PDF'']]"

definition lenient_catalog :: "(string \<times> json) list" where
  "lenient_catalog = [(''result'', JObj [(''results'', JArr lenient_packages)])]"

definition help_body :: "(string \<times> json) list" where
  "help_body =
     [(''help'', JStr ''https://data.humdata.org/api/3/action/help_show''), (''success'', JBool True)]"

definition help_response :: http_response where
  "help_response =
     \<lparr>status_code = 200, content = [], header_content_type = Some ''application/json'',
      json_body = Inr (JObj help_body)\<rparr>"

definition upstream_help :: "json \<Rightarrow> exn + http_response" where
  "upstream_help url = Inr help_response"

definition query_error_body :: "(string \<times> json) list" where
  "query_error_body =
     [(''help'', JStr ''https://data.humdata.org/api/3/action/help_show''),
      (''success'', JBool False),
      (''error'', JObj [(''__type'', JStr ''Search Query Error''),
                        (''message'', JStr ''Search Query is invalid'')])]"

definition conflict_response :: http_response where
  "conflict_response =
     \<lparr>status_code = 409, content = [], header_content_type = Some ''application/json'',
      json_body = Inr (JObj query_error_body)\<rparr>"

definition upstream_conflict :: "json \<Rightarrow> exn + http_response" where
  "upstream_conflict url = Inr conflict_response"

definition population_query :: json where
  "population_query = JObj [(''query'', JStr ''population'')]"

definition no_str :: "json \<Rightarrow> string" where
  "no_str v = []"

text \<open>Runs of \<open>/analyze_data\<close>: with no chart, with a chart, with a failing chart step,
  and with no synthesized query.\<close>

definition analyze_env_plain :: "string list list analyze_env" where
  "analyze_env_plain =
     \<lparr>db_cursor = None,
      cursor_execute = (\<lambda>statement. Inr [[''name'', ''varchar''], [''amount'', ''int'']]),
      get_sql_query = (\<lambda>question columns table. Inr (Some ''SELECT SUM(amount) FROM sales_1;'')),
      execute_query = (\<lambda>sql. Inr [[''30'']]),
      get_assistant_response = (\<lambda>question sql rows. Inr ''The total amount is 30.''),
      generate_charts = (\<lambda>rows. Inr None),
      str_of = (\<lambda>v. [])\<rparr>"

definition analyze_env_chart :: "string list list analyze_env" where
  "analyze_env_chart = analyze_env_plain\<lparr>generate_charts := (\<lambda>rows. Inr (Some ''iVBORw0KGgo=''))\<rparr>"

definition analyze_env_chart_raises :: "string list list analyze_env" where
  "analyze_env_chart_raises =
     analyze_env_plain\<lparr>generate_charts := (\<lambda>rows. Inl (Raised ''cannot plot''))\<rparr>"

definition analyze_env_no_sql :: "string list list analyze_env" where
  "analyze_env_no_sql = analyze_env_plain\<lparr>get_sql_query := (\<lambda>question columns table. Inr None)\<rparr>"

text \<open>A store that knows one statement only.\<close>

definition describe_only_store :: "string \<Rightarrow> exn + string list list" where
  "describe_only_store statement =
     (if statement = ''DESCRIBE sales_1; DROP TABLE sales_1;''
      then Inr [[''name'', ''varchar''], [''amount'', ''int'']]
      else Inl (Raised ''no such table''))"

definition total_query :: json where
  "total_query = JObj [(''query'', JStr ''what is the total amount?'')]"

text \<open>Runs of the upload endpoints: an ingestion that succeeds and one that raises.\<close>

definition csv_download :: http_response where
  "csv_download =
     \<lparr>status_code = 200, content = ''name,amount'', header_content_type = Some ''text/csv'',
      json_body = Inl (Raised ''not JSON'')\<rparr>"

definition upload_env_ok :: upload_env where
  "upload_env_ok =
     \<lparr>libs = sniffer_text,
      secure_filename = (\<lambda>name. name),
      UPLOAD_FOLDER = Some ''/tmp/uploads'',
      file_save = (\<lambda>path. None),
      get_db = None,
      requests_get = (\<lambda>url. Inr csv_download),
      clean_and_store_data =
        (\<lambda>path file. Inr (Some ''data_1'', Some \<lparr>empty = False, to_json = Inr (JArr [])\<rparr>)),
      url_str_of = (\<lambda>v. [])\<rparr>"

definition upload_env_ingest_raises :: upload_env where
  "upload_env_ingest_raises =
     upload_env_ok\<lparr>clean_and_store_data := (\<lambda>path file. Inl (Raised ''cannot parse''))\<rparr>"

definition upload_env_undetected :: upload_env where
  "upload_env_undetected = upload_env_ok\<lparr>libs := sniffer_undetected\<rparr>"

definition url_request :: "string \<Rightarrow> exn + json" where
  "url_request url = Inr (JObj [(''url'', JStr url)])"

section \<open>Lemmas on the helper functions\<close>

lemma rsplit1_last:
  assumes "sep \<notin> set ext"
  shows "rsplit1 sep (stem @ sep # ext) = [stem, ext]"
proof -
  have r: "rev (stem @ sep # ext) = rev ext @ sep # rev stem" by simp
  have t: "takeWhile (\<lambda>c. c \<noteq> sep) (rev ext @ sep # rev stem) = rev ext"
    using assms by (subst takeWhile_append2) auto
  have d: "dropWhile (\<lambda>c. c \<noteq> sep) (rev ext @ sep # rev stem) = sep # rev stem"
    using assms by (subst dropWhile_append2) auto
  show ?thesis
    unfolding rsplit1_def r t d by simp
qed

lemma extension_of:
  "CHR ''.'' \<notin> set ext \<Longrightarrow> index1 (rsplit1 CHR ''.'' (stem @ ''.'' @ ext)) = Inr ext"
  by (simp add: rsplit1_last index1_def)

lemma no_dot_no_extension:
  "CHR ''.'' \<notin> set name \<Longrightarrow> index1 (rsplit1 CHR ''.'' name) = Inl IndexError"
  by (simp add: rsplit1_def index1_def)

lemma save_writes:
  "fs path \<noteq> Some Directory \<Longrightarrow> file_save env path = None
   \<Longrightarrow> save env fs path = (None, fs(path \<mapsto> File))"
  by (simp add: save_def split: option.splits entry.splits)

lemma any_csv_wf:
  "list_all wf_resource rs \<Longrightarrow> any_csv rs = Inr (list_ex (\<lambda>r. lower (format_of r) = ''csv'') rs)"
proof (induction rs)
  case Nil
  show ?case by simp
next
  case (Cons r rs)
  from Cons.prems obtain kvs s where r: "r = JObj kvs" "map_of kvs ''format'' = Some (JStr s)"
    by (auto simp: wf_resource_def split: json.splits option.splits)
  from Cons show ?case
    by (simp add: r format_of_def)
qed

lemma filter_loop_wf:
  "list_all wf_package ps \<Longrightarrow> filter_loop acc ps = Inr (acc @ filter has_csv_resource ps)"
proof (induction ps arbitrary: acc)
  case Nil
  show ?case by simp
next
  case (Cons p ps)
  from Cons.prems obtain kvs rs where p: "p = JObj kvs" "map_of kvs ''resources'' = Some (JArr rs)"
    "list_all wf_resource rs"
    by (auto simp: wf_package_def split: json.splits option.splits)
  have hp: "has_csv_resource p = list_ex (\<lambda>r. lower (format_of r) = ''csv'') rs"
    by (simp add: has_csv_resource_def resources_of_def p)
  from Cons.prems have "list_all wf_package ps" by simp
  note IH = Cons.IH [OF this]
  show ?case
    by (cases "list_ex (\<lambda>r. lower (format_of r) = ''csv'') rs")
       (simp_all add: p(1,2) any_csv_wf [OF p(3)] hp [symmetric] IH)
qed

text \<open>The same, for any package list on which the loop does not raise.\<close>

lemma any_csv_returns:
  "any_csv rs = Inr b \<Longrightarrow> b = list_ex (\<lambda>r. lower (format_of r) = ''csv'') rs"
proof (induction rs)
  case Nil
  then show ?case by simp
next
  case (Cons r rs)
  from Cons.prems obtain kvs s where r: "r = JObj kvs" "map_of kvs ''format'' = Some (JStr s)"
    by (cases r; cases "py_getitem r ''format''")
       (auto split: option.splits sum.splits json.splits elim: py_lower.elims)
  show ?case
  proof (cases "lower s = ''csv''")
    case True
    with Cons.prems show ?thesis by (simp add: r format_of_def)
  next
    case False
    with Cons.prems have "any_csv rs = Inr b" by (simp add: r)
    with Cons.IH False show ?thesis by (simp add: r format_of_def)
  qed
qed

lemma iter_resources_of:
  assumes "py_getitem p ''resources'' = Inr resources" and "py_iter resources = Inr rs"
    and "any_csv rs = Inr b"
  shows "b = has_csv_resource p"
proof -
  from assms(1) obtain kvs where p: "p = JObj kvs" "map_of kvs ''resources'' = Some resources"
    by (cases p) (auto split: option.splits)
  show ?thesis
  proof (cases resources)
    case (JArr xs)
    with assms p show ?thesis
      using any_csv_returns [of rs b] by (simp add: has_csv_resource_def resources_of_def)
  next
    case (JObj kvs')
    with assms(2) have rs: "rs = map (\<lambda>kv. JStr (fst kv)) kvs'" by simp
    with assms(3) have "kvs' = []" by (cases kvs') auto
    with assms p JObj rs show ?thesis by (simp add: has_csv_resource_def resources_of_def)
  next
    case (JStr s)
    with assms(2) have rs: "rs = map (\<lambda>c. JStr [c]) s" by simp
    with assms(3) have "s = []" by (cases s) auto
    with assms p JStr rs show ?thesis by (simp add: has_csv_resource_def resources_of_def)
  qed (use assms(2) in simp_all)
qed

lemma filter_loop_returns:
  "filter_loop acc ps = Inr out \<Longrightarrow> out = acc @ filter has_csv_resource ps"
proof (induction ps arbitrary: acc)
  case Nil
  then show ?case by simp
next
  case (Cons p ps)
  from Cons.prems obtain resources rs b where
    s: "py_getitem p ''resources'' = Inr resources" "py_iter resources = Inr rs" "any_csv rs = Inr b"
    by (auto split: sum.splits)
  have b: "b = has_csv_resource p" using iter_resources_of [OF s] .
  show ?case
  proof (cases b)
    case True
    with Cons.prems s have "filter_loop (acc @ [p]) ps = Inr out" by simp
    from Cons.IH [OF this] True b show ?thesis by simp
  next
    case False
    with Cons.prems s have "filter_loop acc ps = Inr out" by simp
    from Cons.IH [OF this] False b show ?thesis by simp
  qed
qed

lemma package_wf: "wf_package (package name formats)"
  by (simp add: wf_package_def package_def wf_resource_def list_all_iff)

lemma package_has_csv:
  "has_csv_resource (package name formats) = list_ex (\<lambda>f. lower f = ''csv'') formats"
  by (simp add: has_csv_resource_def resources_of_def package_def format_of_def list_ex_iff)

text \<open>
  Once the request carries a query, the cursor is there, the \<open>DESCRIBE\<close> statement
  returned its rows and \<open>get_sql_query\<close> returned, the answer of the endpoint is
  decided by what \<open>get_sql_query\<close> returned.
\<close>

lemma analyze_after_synthesis:
  assumes "get_json = Inr payload" and "py_get payload ''query'' JNull = Inr user_query"
    and "truthy user_query" and "db_cursor env = None"
    and "cursor_execute env (''DESCRIBE '' @ upload_id @ '';'') = Inr columns"
    and "first_items columns = Inr names"
    and "get_sql_query env user_query (join '', '' names) upload_id = Inr cleaned"
  shows "fst (analyze_data_endpoint env get_json upload_id) =
           (case (case cleaned of
                    None \<Rightarrow>
                      Inr (MessagesBody
                             [(''assistant'',
                               ''Could not generate an SQL query from the user's question: '' @
                               py_format (str_of env) user_query)], 200)
                  | Some q \<Rightarrow>
                      if q \<noteq> [] then analyze_answer env user_query q
                      else
                        Inr (MessagesBody
                               [(''assistant'',
                                 ''Could not generate an SQL query from the user's question: '' @
                                 py_format (str_of env) user_query)], 200)) of
              Inl e \<Rightarrow> (ErrorExn ''Error analyzing data'' e, 500)
            | Inr r \<Rightarrow> r)"
  using assms
  by (simp add: analyze_data_endpoint_def analyze_try_def analyze_columns_def
      execute_fetchall_def split: sum.splits option.splits)

lemma default_items_all:
  "list_all2 (\<lambda>kv kv'. fst kv' = fst kv \<and> default isoformat (snd kv) = Inr (snd kv')) kvs kvs'
   \<Longrightarrow> default_items isoformat kvs = Inr kvs'"
proof (induction kvs kvs' rule: list_all2_induct)
  case Nil
  show ?case by simp
next
  case (Cons kv kvs kv' kvs')
  then show ?case by (cases kv; cases kv') simp
qed

lemma default_items_raises:
  "list_ex (\<lambda>kv. isl (default isoformat (snd kv))) kvs \<Longrightarrow> isl (default_items isoformat kvs)"
proof (induction kvs)
  case Nil
  then show ?case by simp
next
  case (Cons kv kvs)
  then show ?case
    by (cases kv) (auto split: sum.splits)
qed

section \<open>The file type sniffer\<close>

text \<open>
  Claim C1. A file named \<open>report.csv\<close> whose bytes give the charset detection nothing
  to go on (it reports no encoding) cannot be decoded: \<open>decode(None)\<close> raises
  \<open>TypeError\<close>, which is not the \<open>UnicodeDecodeError\<close> that \<open>allowed_file\<close> catches.
  The function raises where it should fall through to the MIME check, which would
  have answered false for these bytes, and \<open>/upload\<close> answers 500
  \<open>Unhandled exception\<close> instead of 400 \<open>Unsupported file type\<close>. A detected
  encoding that names no codec (\<open>LookupError\<close>) ends the same way.
\<close>

theorem undetected_encoding_raises_type_error:
  "chardet_detect sniffer_undetected (stream binary_csv) = None
   \<and> mime_check sniffer_undetected (stream binary_csv) = False
   \<and> allowed_file sniffer_undetected binary_csv = Inl TypeError
   \<and> upload_file upload_env_undetected Map.empty (Some binary_csv) =
       ((ErrorExn ''Unhandled exception'' TypeError, 500), Map.empty)
   \<and> allowed_file sniffer_unknown_codec binary_csv = Inl LookupError"
  by (simp add: allowed_file_def rsplit1_def index1_def lower_def lower_char_def csv_probe_def
      mime_check_def ALLOWED_MIME_TYPES_def sniffer_undetected_def sniffer_unknown_codec_def
      binary_csv_def
      upload_file_def upload_file_try_def file_and_allowed_def upload_env_undetected_def
      upload_env_ok_def Let_def)

text \<open>
  What does hold, for a filename \<open>stem.ext\<close> (\<open>ext\<close> being what follows the last
  dot). When \<open>ext\<close>, lowercased, is \<open>csv\<close> and the bytes decode under the detected
  encoding, \<open>allowed_file\<close> returns true. When \<open>ext\<close> is \<open>csv\<close> and decoding raises
  \<open>UnicodeDecodeError\<close>, the file is not rejected there: the result is that of the MIME
  check. When \<open>ext\<close> is anything else, the result is that of the MIME check too. The
  MIME check accepts exactly the sniffed type \<open>text/csv\<close>.
\<close>

theorem allowed_file_csv_or_mime:
  assumes "filename upload = stem @ ''.'' @ ext" and "CHR ''.'' \<notin> set ext"
  shows "(lower ext = ''csv'' \<and> chardet_detect sn (stream upload) = Some enc \<and>
            decode sn (stream upload) enc = None
          \<longrightarrow> allowed_file sn upload = Inr True)
       \<and> (lower ext = ''csv'' \<and> chardet_detect sn (stream upload) = Some enc \<and>
            decode sn (stream upload) enc = Some UnicodeDecodeError
          \<longrightarrow> allowed_file sn upload = Inr (magic_from_buffer sn (stream upload) = ''text/csv''))
       \<and> (lower ext \<noteq> ''csv''
          \<longrightarrow> allowed_file sn upload = Inr (magic_from_buffer sn (stream upload) = ''text/csv''))"
proof -
  have ext: "index1 (rsplit1 CHR ''.'' (filename upload)) = Inr ext"
    using assms extension_of [of ext stem] by simp
  show ?thesis
    by (simp add: allowed_file_def ext csv_probe_def mime_check_def ALLOWED_MIME_TYPES_def Let_def)
qed

theorem allowed_file_csv_or_mime_witness:
  "filename (csv_file ''report.CSV'') = ''report'' @ ''.'' @ ''CSV''
   \<and> CHR ''.'' \<notin> set ''CSV'' \<and> lower ''CSV'' = ''csv''
   \<and> decode sniffer_text (stream (csv_file ''report.CSV'')) ''ascii'' = None
   \<and> allowed_file sniffer_text (csv_file ''report.CSV'') = Inr True
   \<and> decode sniffer_binary (stream (csv_file ''report.csv'')) ''utf-8'' = Some UnicodeDecodeError
   \<and> allowed_file sniffer_binary (csv_file ''report.csv'') = Inr False
   \<and> allowed_file sniffer_csv_mime (csv_file ''report.csv'') = Inr True
   \<and> lower ''gz'' \<noteq> ''csv''
   \<and> allowed_file sniffer_csv_mime (csv_file ''archive.tar.gz'') = Inr True
   \<and> allowed_file sniffer_text (csv_file ''notes.txt'') = Inr False"
  using
    allowed_file_csv_or_mime [where upload = "csv_file ''report.CSV''" and stem = "''report''"
      and ext = "''CSV''" and sn = sniffer_text and enc = "''ascii''"]
    allowed_file_csv_or_mime [where upload = "csv_file ''report.csv''" and stem = "''report''"
      and ext = "''csv''" and sn = sniffer_binary and enc = "''utf-8''"]
    allowed_file_csv_or_mime [where upload = "csv_file ''report.csv''" and stem = "''report''"
      and ext = "''csv''" and sn = sniffer_csv_mime and enc = "''utf-8''"]
    allowed_file_csv_or_mime [where upload = "csv_file ''archive.tar.gz''" and stem = "''archive.tar''"
      and ext = "''gz''" and sn = sniffer_csv_mime and enc = "''utf-8''"]
    allowed_file_csv_or_mime [where upload = "csv_file ''notes.txt''" and stem = "''notes''"
      and ext = "''txt''" and sn = sniffer_text and enc = "''ascii''"]
  by (simp add: csv_file_def sniffer_text_def sniffer_binary_def sniffer_csv_mime_def
      lower_def lower_char_def)

text \<open>
  Claim C2. A filename without a dot has no second part after \<open>rsplit\<close>, so
  \<open>allowed_file\<close> raises \<open>IndexError\<close> before it looks at the bytes; it does not
  return false. In both upload handlers the exception reaches the outer handler, which
  answers 500 \<open>Unhandled exception\<close>, not the 400 \<open>Unsupported file type\<close>. Shown for
  the filename \<open>data\<close>, whatever the bytes, the libraries and the folder.
\<close>

theorem no_extension_raises_index_error:
  "allowed_file sn \<lparr>filename = ''data'', stream = blob\<rparr> = Inl IndexError
   \<and> upload_file env fs (Some \<lparr>filename = ''data'', stream = blob\<rparr>) =
       ((ErrorExn ''Unhandled exception'' IndexError, 500), fs)
   \<and> upload_from_url upload_env_ok fs (url_request ''http://example.org/files/data'') =
       ((ErrorExn ''Unhandled exception'' IndexError, 500), fs)"
proof -
  have a: "allowed_file sn' \<lparr>filename = ''data'', stream = blob'\<rparr> = Inl IndexError" for sn' blob'
    using no_dot_no_extension [of "''data''"] by (simp add: allowed_file_def)
  have u: "upload_file env fs (Some \<lparr>filename = ''data'', stream = blob\<rparr>) =
             ((ErrorExn ''Unhandled exception'' IndexError, 500), fs)"
    by (simp add: upload_file_def upload_file_try_def file_and_allowed_def a)
  have v: "upload_from_url upload_env_ok fs (url_request ''http://example.org/files/data'') =
             ((ErrorExn ''Unhandled exception'' IndexError, 500), fs)"
    by (simp add: upload_from_url_def upload_from_url_try_def file_and_allowed_def a
        upload_env_ok_def csv_download_def url_request_def last_segment_def)
  show ?thesis
    using a u v by simp
qed

section \<open>The analysis endpoint\<close>

text \<open>
  The statement ``a failure inside \<open>generate_charts\<close> leaves the response with its
  narration and no chart'' fails where \<open>generate_charts\<close> raises: a query was
  synthesized and executed, the narration was produced, and the endpoint answers 500
  with an error body.
\<close>

theorem chart_failure_aborts_counterexample:
  "get_sql_query analyze_env_chart_raises (JStr ''what is the total amount?'') ''name, amount''
     ''sales_1'' = Inr (Some ''SELECT SUM(amount) FROM sales_1;'')
   \<and> execute_query analyze_env_chart_raises ''SELECT SUM(amount) FROM sales_1;'' = Inr [[''30'']]
   \<and> generate_charts analyze_env_chart_raises [[''30'']] = Inl (Raised ''cannot plot'')
   \<and> analyze_data_endpoint analyze_env_chart_raises (Inr total_query) ''sales_1'' =
       ((ErrorExn ''Error analyzing data'' (Raised ''cannot plot''), 500), [''DESCRIBE sales_1;''])"
  by (simp add: analyze_data_endpoint_def analyze_try_def analyze_columns_def analyze_answer_def
      execute_fetchall_def new_cursor_def analyze_env_chart_raises_def analyze_env_plain_def
      total_query_def)

text \<open>
  Claim C3, as amended. For a request in which a query was synthesized and executed
  and the narration produced: if \<open>generate_charts\<close> returns no chart (\<open>None\<close> or the
  empty string), the endpoint returns the messages list holding the assistant narration
  alone; if it returns a chart, the list holds the narration and then the chart
  message; if it raises, the endpoint's handler answers 500 with
  \<open>Error analyzing data\<close> and the messages are lost.
\<close>

theorem chart_outcomes:
  assumes "get_json = Inr payload" and "py_get payload ''query'' JNull = Inr user_query"
    and "truthy user_query" and "db_cursor env = None"
    and "cursor_execute env (''DESCRIBE '' @ upload_id @ '';'') = Inr columns"
    and "first_items columns = Inr names"
    and "get_sql_query env user_query (join '', '' names) upload_id = Inr (Some sql)"
    and "sql \<noteq> []"
    and "execute_query env sql = Inr query_results"
    and "get_assistant_response env user_query sql query_results = Inr narration"
  shows "(generate_charts env query_results = Inr None \<or>
          generate_charts env query_results = Inr (Some [])
          \<longrightarrow> fst (analyze_data_endpoint env get_json upload_id) =
                (MessagesBody [(''assistant'', narration)], 200))
       \<and> (generate_charts env query_results = Inr (Some chart) \<and> chart \<noteq> []
          \<longrightarrow> fst (analyze_data_endpoint env get_json upload_id) =
                (MessagesBody [(''assistant'', narration), (''chart'', chart)], 200))
       \<and> (generate_charts env query_results = Inl e
          \<longrightarrow> fst (analyze_data_endpoint env get_json upload_id) =
                (ErrorExn ''Error analyzing data'' e, 500))"
  using assms(8-10)
  by (auto simp add: analyze_after_synthesis [OF assms(1-7)] analyze_answer_def)

theorem chart_outcomes_witness:
  "py_get total_query ''query'' JNull = Inr (JStr ''what is the total amount?'')
   \<and> truthy (JStr ''what is the total amount?'')
   \<and> first_items [[''name'', ''varchar''], [''amount'', ''int'']] = Inr [''name'', ''amount'']
   \<and> generate_charts analyze_env_plain [[''30'']] = Inr None
   \<and> fst (analyze_data_endpoint analyze_env_plain (Inr total_query) ''sales_1'') =
       (MessagesBody [(''assistant'', ''The total amount is 30.'')], 200)
   \<and> generate_charts analyze_env_chart [[''30'']] = Inr (Some ''iVBORw0KGgo='')
   \<and> fst (analyze_data_endpoint analyze_env_chart (Inr total_query) ''sales_1'') =
       (MessagesBody [(''assistant'', ''The total amount is 30.''), (''chart'', ''iVBORw0KGgo='')], 200)
   \<and> generate_charts analyze_env_chart_raises [[''30'']] = Inl (Raised ''cannot plot'')
   \<and> fst (analyze_data_endpoint analyze_env_chart_raises (Inr total_query) ''sales_1'') =
       (ErrorExn ''Error analyzing data'' (Raised ''cannot plot''), 500)"
  using
    chart_outcomes [where get_json = "Inr total_query" and payload = total_query
      and user_query = "JStr ''what is the total amount?''" and env = analyze_env_plain
      and upload_id = "''sales_1''" and columns = "[[''name'', ''varchar''], [''amount'', ''int'']]"
      and names = "[''name'', ''amount'']" and sql = "''SELECT SUM(amount) FROM sales_1;''"
      and query_results = "[[''30'']]" and narration = "''The total amount is 30.''"
      and chart = "''iVBORw0KGgo=''" and e = "Raised ''cannot plot''"]
    chart_outcomes [where get_json = "Inr total_query" and payload = total_query
      and user_query = "JStr ''what is the total amount?''" and env = analyze_env_chart
      and upload_id = "''sales_1''" and columns = "[[''name'', ''varchar''], [''amount'', ''int'']]"
      and names = "[''name'', ''amount'']" and sql = "''SELECT SUM(amount) FROM sales_1;''"
      and query_results = "[[''30'']]" and narration = "''The total amount is 30.''"
      and chart = "''iVBORw0KGgo=''" and e = "Raised ''cannot plot''"]
    chart_outcomes [where get_json = "Inr total_query" and payload = total_query
      and user_query = "JStr ''what is the total amount?''" and env = analyze_env_chart_raises
      and upload_id = "''sales_1''" and columns = "[[''name'', ''varchar''], [''amount'', ''int'']]"
      and names = "[''name'', ''amount'']" and sql = "''SELECT SUM(amount) FROM sales_1;''"
      and query_results = "[[''30'']]" and narration = "''The total amount is 30.''"
      and chart = "''iVBORw0KGgo=''" and e = "Raised ''cannot plot''"]
  by (simp add: analyze_env_plain_def analyze_env_chart_def analyze_env_chart_raises_def
      total_query_def)

text \<open>
  Claim C7. For a request with a non-empty query on which \<open>get_sql_query\<close> returns a
  falsy result (\<open>None\<close> or the empty string), the endpoint answers 200 with a messages
  list whose one message, of role \<open>assistant\<close>, says that no SQL query could be
  generated from the user's question.
\<close>

theorem no_sql_is_a_message:
  assumes "get_json = Inr payload" and "py_get payload ''query'' JNull = Inr user_query"
    and "truthy user_query" and "db_cursor env = None"
    and "cursor_execute env (''DESCRIBE '' @ upload_id @ '';'') = Inr columns"
    and "first_items columns = Inr names"
    and "get_sql_query env user_query (join '', '' names) upload_id = Inr cleaned"
    and "\<not> truthy_str cleaned"
  shows "fst (analyze_data_endpoint env get_json upload_id) =
           (MessagesBody
              [(''assistant'',
                ''Could not generate an SQL query from the user's question: '' @
                py_format (str_of env) user_query)], 200)"
  using assms(8)
  by (cases cleaned) (simp_all add: analyze_after_synthesis [OF assms(1-7)])

theorem no_sql_is_a_message_witness:
  "py_get total_query ''query'' JNull = Inr (JStr ''what is the total amount?'')
   \<and> truthy (JStr ''what is the total amount?'')
   \<and> get_sql_query analyze_env_no_sql (JStr ''what is the total amount?'')
         (join '', '' [''name'', ''amount'']) ''sales_1'' = Inr None
   \<and> \<not> truthy_str None
   \<and> fst (analyze_data_endpoint analyze_env_no_sql (Inr total_query) ''sales_1'') =
       (MessagesBody
          [(''assistant'',
            ''Could not generate an SQL query from the user's question: what is the total amount?'')],
        200)"
  using
    no_sql_is_a_message [where get_json = "Inr total_query" and payload = total_query
      and user_query = "JStr ''what is the total amount?''" and env = analyze_env_no_sql
      and upload_id = "''sales_1''" and columns = "[[''name'', ''varchar''], [''amount'', ''int'']]"
      and names = "[''name'', ''amount'']" and cleaned = None]
  by (simp add: analyze_env_no_sql_def analyze_env_plain_def total_query_def py_format_def)

text \<open>
  Claim C9. Whatever string arrives as \<open>upload_id\<close>, the store is given at most one
  statement by the endpoint's cursor, and that statement is \<open>DESCRIBE\<close>, a space, the
  identifier as it came and a semicolon; the store is given it whenever the request
  carries a non-empty query and the cursor is obtained. The answer of the endpoint
  hangs on the store's answer to that very statement and to no other: two stores that
  answer it alike get the same response. Nothing checks, quotes or rewrites the
  identifier on the way.
\<close>

theorem describe_statement_verbatim:
  "set (snd (analyze_data_endpoint env get_json upload_id)) \<subseteq> {''DESCRIBE '' @ upload_id @ '';''}
   \<and> (get_json = Inr payload \<and> py_get payload ''query'' JNull = Inr user_query \<and>
        truthy user_query \<and> db_cursor env = None
        \<longrightarrow> snd (analyze_data_endpoint env get_json upload_id) =
                snd (execute_fetchall env new_cursor (''DESCRIBE '' @ upload_id @ '';''))
            \<and> snd (analyze_data_endpoint env get_json upload_id) =
                [''DESCRIBE '' @ upload_id @ '';'']
            \<and> fst (analyze_data_endpoint env get_json upload_id) =
                (case analyze_columns env user_query upload_id
                        (cursor_execute env (''DESCRIBE '' @ upload_id @ '';'')) of
                   Inl e \<Rightarrow> (ErrorExn ''Error analyzing data'' e, 500)
                 | Inr r \<Rightarrow> r))
   \<and> (store (''DESCRIBE '' @ upload_id @ '';'') = cursor_execute env (''DESCRIBE '' @ upload_id @ '';'')
        \<longrightarrow> analyze_data_endpoint (env\<lparr>cursor_execute := store\<rparr>) get_json upload_id =
              analyze_data_endpoint env get_json upload_id)"
proof -
  have sent: "set (snd (analyze_data_endpoint env get_json upload_id))
                \<subseteq> {''DESCRIBE '' @ upload_id @ '';''}"
    by (auto simp add: analyze_data_endpoint_def analyze_try_def execute_fetchall_def new_cursor_def
        split: sum.splits option.splits prod.splits if_splits)
  have reached: "get_json = Inr payload \<and> py_get payload ''query'' JNull = Inr user_query \<and>
        truthy user_query \<and> db_cursor env = None
        \<longrightarrow> snd (analyze_data_endpoint env get_json upload_id) =
                snd (execute_fetchall env new_cursor (''DESCRIBE '' @ upload_id @ '';''))
            \<and> snd (analyze_data_endpoint env get_json upload_id) =
                [''DESCRIBE '' @ upload_id @ '';'']
            \<and> fst (analyze_data_endpoint env get_json upload_id) =
                (case analyze_columns env user_query upload_id
                        (cursor_execute env (''DESCRIBE '' @ upload_id @ '';'')) of
                   Inl e \<Rightarrow> (ErrorExn ''Error analyzing data'' e, 500)
                 | Inr r \<Rightarrow> r)"
    by (simp add: analyze_data_endpoint_def analyze_try_def execute_fetchall_def new_cursor_def
        split: sum.splits)
  have other_store:
    "store (''DESCRIBE '' @ upload_id @ '';'') = cursor_execute env (''DESCRIBE '' @ upload_id @ '';'')
     \<longrightarrow> analyze_data_endpoint (env\<lparr>cursor_execute := store\<rparr>) get_json upload_id =
           analyze_data_endpoint env get_json upload_id"
    by (simp add: analyze_data_endpoint_def analyze_try_def execute_fetchall_def new_cursor_def
        analyze_columns_def analyze_answer_def
        split: sum.splits option.splits)
  show ?thesis
    using sent reached other_store by blast
qed

theorem describe_statement_verbatim_witness:
  "py_get total_query ''query'' JNull = Inr (JStr ''what is the total amount?'')
   \<and> truthy (JStr ''what is the total amount?'')
   \<and> db_cursor analyze_env_plain = None
   \<and> snd (analyze_data_endpoint analyze_env_plain (Inr total_query) ''sales_1; DROP TABLE sales_1'') =
       [''DESCRIBE sales_1; DROP TABLE sales_1;'']
   \<and> describe_only_store ''DESCRIBE sales_1; DROP TABLE sales_1;'' =
       cursor_execute analyze_env_plain ''DESCRIBE sales_1; DROP TABLE sales_1;''
   \<and> analyze_data_endpoint (analyze_env_plain\<lparr>cursor_execute := describe_only_store\<rparr>)
         (Inr total_query) ''sales_1; DROP TABLE sales_1'' =
       ((MessagesBody [(''assistant'', ''The total amount is 30.'')], 200),
        [''DESCRIBE sales_1; DROP TABLE sales_1;''])"
  using
    describe_statement_verbatim [where env = analyze_env_plain and get_json = "Inr total_query"
      and upload_id = "''sales_1; DROP TABLE sales_1''" and payload = total_query
      and user_query = "JStr ''what is the total amount?''" and store = describe_only_store]
  by (simp add: analyze_env_plain_def total_query_def describe_only_store_def
      analyze_data_endpoint_def analyze_try_def execute_fetchall_def new_cursor_def
      analyze_columns_def analyze_answer_def)

section \<open>The dataset search proxy\<close>

text \<open>
  Claim C4. The endpoint never reads the status of the upstream response. When the
  catalog answers 409 with a JSON error body, that body is returned with status 200,
  where the interface promises a 500 error response.
\<close>

theorem search_ignores_upstream_status:
  "upstream_conflict
     (JStr ''https://data.humdata.org/api/3/action/package_search?q=population'') =
     Inr conflict_response
   \<and> status_code conflict_response = 409
   \<and> search no_str upstream_conflict (Inr population_query) =
       (JsonBody (JObj query_error_body), 200)"
  by (simp add: search_def search_try_def filter_resources_def upstream_conflict_def
      conflict_response_def population_query_def query_error_body_def py_format_def)

text \<open>
  More generally, the answer of \<open>/search\<close> is the same whatever status code the
  upstream response carries.
\<close>

theorem search_answer_independent_of_status:
  "search to_str
     (\<lambda>url. case http_get url of Inl e \<Rightarrow> Inl e | Inr r \<Rightarrow> Inr (r\<lparr>status_code := n\<rparr>))
     get_json =
   search to_str http_get get_json"
  by (simp add: search_def search_try_def split: sum.splits)

text \<open>
  Claim C6. For a catalog response whose \<open>result\<close> holds a package list under
  \<open>results\<close>, \<open>filter_resources\<close> returns the response with that list replaced by
  its packages that have a CSV resource, in their order; the packages without one are
  gone, and nothing else in the response changes.
\<close>

theorem filter_resources_keeps_csv_packages:
  assumes "map_of kvs ''result'' = Some (JObj rkvs)"
    and "map_of rkvs ''results'' = Some (JArr packages)"
    and "list_all wf_package packages"
  shows "filter_resources (JObj kvs) =
           Inr (JObj (AList.update ''result''
                  (JObj (AList.update ''results'' (JArr (filter has_csv_resource packages)) rkvs)) kvs))"
  using assms by (simp add: filter_resources_def filter_loop_wf)

theorem filter_resources_keeps_csv_packages_witness:
  "map_of catalog ''result'' = Some (JObj catalog_result)
   \<and> map_of catalog_result ''results'' = Some (JArr catalog_packages)
   \<and> list_all wf_package catalog_packages
   \<and> filter_resources (JObj catalog) =
       Inr (JObj [(''success'', JBool True),
                  (''result'', JObj [(''count'', JNum 4),
                     (''results'', JArr [package ''census'' [''XLSX'', ''CSV''],
                                         package ''population'' [''csv'']])])])"
  using filter_resources_keeps_csv_packages
    [where kvs = catalog and rkvs = catalog_result and packages = catalog_packages]
  by (simp add: catalog_def catalog_result_def catalog_packages_def package_wf package_has_csv
      lower_def lower_char_def)

text \<open>
  Without any assumption on the packages: whenever \<open>filter_resources\<close> returns on a
  response with a package list, the list it leaves is still the packages that have a
  CSV resource, in their order. (The scan of a package stops at its first CSV
  resource, so a malformed resource after it does no harm.)
\<close>

theorem filter_resources_returns_the_filter:
  assumes "map_of kvs ''result'' = Some (JObj rkvs)"
    and "map_of rkvs ''results'' = Some (JArr packages)"
    and "filter_resources (JObj kvs) = Inr out"
  shows "out = JObj (AList.update ''result''
                 (JObj (AList.update ''results'' (JArr (filter has_csv_resource packages)) rkvs)) kvs)"
proof -
  from assms obtain fr where fr: "filter_loop [] packages = Inr fr"
    by (auto simp: filter_resources_def split: sum.splits)
  from filter_loop_returns [OF fr] have "fr = filter has_csv_resource packages" by simp
  with assms fr show ?thesis by (simp add: filter_resources_def)
qed

theorem filter_resources_returns_the_filter_witness:
  "map_of lenient_catalog ''result'' = Some (JObj [(''results'', JArr lenient_packages)])
   \<and> filter_resources (JObj lenient_catalog) =
       Inr (JObj [(''result'',
                   JObj [(''results'',
                          JArr [JObj [(''resources'', JArr [JObj [(''format'', JStr ''Csv'')], JNull])]])])])"
  using filter_resources_returns_the_filter
    [where kvs = lenient_catalog and rkvs = "[(''results'', JArr lenient_packages)]"
       and packages = lenient_packages
       and out = "JObj [(''result'',
                   JObj [(''results'',
                          JArr [JObj [(''resources'', JArr [JObj [(''format'', JStr ''Csv'')], JNull])]])])]"]
  by (simp add: lenient_catalog_def lenient_packages_def filter_resources_def package_def
      lower_def lower_char_def)

text \<open>
  Claim C10. A response mapping without the key \<open>result\<close> comes back from
  \<open>filter_resources\<close> as it went in, and \<open>/search\<close> returns it as the body of a 200
  response.
\<close>

theorem no_result_passes_through:
  assumes "map_of kvs ''result'' = None"
  shows "filter_resources (JObj kvs) = Inr (JObj kvs)
       \<and> (get_json = Inr payload \<and> py_get payload ''query'' JNull = Inr query \<and> truthy query \<and>
          http_get
            (JStr (''https://data.humdata.org/api/3/action/package_search?q='' @
                   py_format to_str query)) = Inr upstream \<and>
          json_body upstream = Inr (JObj kvs)
          \<longrightarrow> search to_str http_get get_json = (JsonBody (JObj kvs), 200))"
  using assms by (simp add: filter_resources_def search_def search_try_def)

theorem no_result_passes_through_witness:
  "map_of help_body ''result'' = None
   \<and> py_get population_query ''query'' JNull = Inr (JStr ''population'')
   \<and> truthy (JStr ''population'')
   \<and> json_body help_response = Inr (JObj help_body)
   \<and> filter_resources (JObj help_body) = Inr (JObj help_body)
   \<and> search no_str upstream_help (Inr population_query) = (JsonBody (JObj help_body), 200)"
  using no_result_passes_through
    [where kvs = help_body and get_json = "Inr population_query"
       and payload = population_query and query = "JStr ''population''"
       and http_get = upstream_help and to_str = no_str and upstream = help_response]
  by (simp add: help_body_def help_response_def upstream_help_def population_query_def
      py_format_def)

section \<open>The temporary file of an upload\<close>

text \<open>
  Claim C5. \<open>/upload_from_url\<close> saves the download under the upload folder and never
  removes it: the file is still there after an ingestion that succeeds and after one
  that raises. \<open>/upload\<close>, on the same two runs, leaves nothing behind.
\<close>

theorem upload_from_url_keeps_the_file:
  "upload_from_url upload_env_ok Map.empty (url_request ''http://example.org/files/data.csv'') =
     ((UploadBody ''data_1'' (JArr []), 200), [''/tmp/uploads/data.csv'' \<mapsto> File])
   \<and> upload_from_url upload_env_ingest_raises Map.empty
         (url_request ''http://example.org/files/data.csv'') =
     ((ErrorExn ''Unhandled exception'' (Raised ''cannot parse''), 500),
      [''/tmp/uploads/data.csv'' \<mapsto> File])
   \<and> upload_file upload_env_ok Map.empty (Some (csv_file ''data.csv'')) =
     ((UploadBody ''data_1'' (JArr []), 200), Map.empty)
   \<and> upload_file upload_env_ingest_raises Map.empty (Some (csv_file ''data.csv'')) =
     ((ErrorExn ''Error saving file'' (Raised ''cannot parse''), 500), Map.empty)"
  by (simp add: upload_from_url_def upload_from_url_try_def upload_file_def upload_file_try_def
      upload_env_ok_def upload_env_ingest_raises_def url_request_def file_and_allowed_def
      allowed_file_def rsplit1_def index1_def lower_def lower_char_def csv_probe_def
      sniffer_text_def last_segment_def path_join_def save_and_store_def save_def os_remove_def
      upload_response_def csv_download_def csv_file_def Let_def)

text \<open>
  In general: once \<open>/upload\<close> has written the file, the path is gone when the handler
  returns, whatever \<open>get_db\<close> and \<open>clean_and_store_data\<close> do.
\<close>

theorem upload_file_removes_saved_file:
  assumes "filename upload \<noteq> []" and "allowed_file (libs env) upload = Inr True"
    and "UPLOAD_FOLDER env = Some folder"
    and "fs (path_join folder (secure_filename env (filename upload))) \<noteq> Some Directory"
    and "file_save env (path_join folder (secure_filename env (filename upload))) = None"
  shows "snd (upload_file env fs (Some upload))
           (path_join folder (secure_filename env (filename upload))) = None"
  using assms
  by (simp add: upload_file_def upload_file_try_def file_and_allowed_def save_and_store_def
      save_writes os_remove_def Let_def split: option.splits sum.splits prod.splits)

theorem upload_file_removes_saved_file_witness:
  "filename (csv_file ''data.csv'') \<noteq> []
   \<and> allowed_file (libs upload_env_ingest_raises) (csv_file ''data.csv'') = Inr True
   \<and> file_save upload_env_ingest_raises ''/tmp/uploads/data.csv'' = None
   \<and> snd (upload_file upload_env_ingest_raises Map.empty (Some (csv_file ''data.csv'')))
         ''/tmp/uploads/data.csv'' = None"
  using upload_file_removes_saved_file [where upload = "csv_file ''data.csv''"
      and env = upload_env_ingest_raises and folder = "''/tmp/uploads''" and fs = Map.empty]
  by (simp add: upload_env_ok_def upload_env_ingest_raises_def
      allowed_file_def rsplit1_def index1_def lower_def lower_char_def csv_probe_def
      sniffer_text_def path_join_def csv_file_def Let_def)

text \<open>
  And once \<open>/upload_from_url\<close> has written the file, the path is still a file when the
  handler returns, whatever \<open>get_db\<close> and \<open>clean_and_store_data\<close> do.
\<close>

theorem upload_from_url_leaves_saved_file:
  assumes "request_json = Inr payload" and "py_get payload ''url'' (JStr []) = Inr (JStr u)"
    and "requests_get env (JStr u) = Inr r" and "status_code r = 200"
    and "header_content_type r = Some ct"
    and "file_and_allowed (libs env) \<lparr>filename = last_segment u, stream = content r\<rparr> = Inr True"
    and "UPLOAD_FOLDER env = Some folder"
    and "fs (path_join folder (secure_filename env (last_segment u))) \<noteq> Some Directory"
    and "file_save env (path_join folder (secure_filename env (last_segment u))) = None"
  shows "snd (upload_from_url env fs request_json)
           (path_join folder (secure_filename env (last_segment u))) = Some File"
  using assms
  by (simp add: upload_from_url_def upload_from_url_try_def save_and_store_def save_writes Let_def
      split: option.splits sum.splits prod.splits)

theorem upload_from_url_leaves_saved_file_witness:
  "py_get (JObj [(''url'', JStr ''http://example.org/files/data.csv'')]) ''url'' (JStr []) =
     Inr (JStr ''http://example.org/files/data.csv'')
   \<and> status_code csv_download = 200
   \<and> last_segment ''http://example.org/files/data.csv'' = ''data.csv''
   \<and> file_and_allowed (libs upload_env_ingest_raises)
        \<lparr>filename = ''data.csv'', stream = content csv_download\<rparr> = Inr True
   \<and> snd (upload_from_url upload_env_ingest_raises Map.empty
              (url_request ''http://example.org/files/data.csv''))
         ''/tmp/uploads/data.csv'' = Some File"
  using upload_from_url_leaves_saved_file [where request_json = "url_request ''http://example.org/files/data.csv''"
      and payload = "JObj [(''url'', JStr ''http://example.org/files/data.csv'')]"
      and u = "''http://example.org/files/data.csv''" and env = upload_env_ingest_raises
      and r = csv_download and ct = "''text/csv''" and folder = "''/tmp/uploads''" and fs = Map.empty]
  by (simp add: upload_env_ok_def upload_env_ingest_raises_def url_request_def
      file_and_allowed_def allowed_file_def rsplit1_def index1_def lower_def lower_char_def
      csv_probe_def sniffer_text_def path_join_def csv_download_def last_segment_def Let_def)

text \<open>
  Where the path is a directory, \<open>/upload\<close> cannot write, and the \<open>os.remove\<close> of its
  \<open>finally\<close> clause raises in turn: the answer is 500 \<open>Unhandled exception\<close> and the
  directory stays.
\<close>

theorem upload_file_on_a_directory:
  "upload_file upload_env_ok [''/tmp/uploads/data.csv'' \<mapsto> Directory] (Some (csv_file ''data.csv'')) =
     ((ErrorExn ''Unhandled exception'' IsADirectoryError, 500),
      [''/tmp/uploads/data.csv'' \<mapsto> Directory])"
  by (simp add: upload_file_def upload_file_try_def upload_env_ok_def file_and_allowed_def
      allowed_file_def rsplit1_def index1_def lower_def lower_char_def csv_probe_def
      sniffer_text_def path_join_def save_and_store_def save_def os_remove_def
      csv_file_def Let_def)

section \<open>The JSON encoder\<close>

text \<open>
  Claim C8. An \<open>np.float64\<close> that is not-a-number is a NumPy scalar that is NaN, and
  the hook alone would turn it into \<open>None\<close>. Passed through the encoder it never
  reaches the hook: it is an instance of \<open>float\<close>, the base walk writes floats itself,
  and what is written is the token \<open>NaN\<close>, not \<open>null\<close>; inside a record just the
  same. A NaN scalar of a class that is not a float (\<open>np.float32\<close>) does reach the hook
  and is written as \<open>null\<close>.
\<close>

theorem numpy_float64_nan_is_written_as_nan:
  "default (id :: string \<Rightarrow> string) (NpFloat64 FNaN) = Inr PyNone
   \<and> encode (id :: string \<Rightarrow> string) (NpFloat64 FNaN) = Inr ENaN
   \<and> encode (id :: string \<Rightarrow> string) (PyDict [(''amount'', NpFloat64 FNaN)]) =
       Inr (EObj [(''amount'', ENaN)])
   \<and> encode (id :: string \<Rightarrow> string) (NpGeneric (Inr True) (PyFloat FNaN)) = Inr ENull"
  by (simp add: floatstr_def)

text \<open>
  The rest of the interface's rules hold through the encoder: not-a-time is written as
  \<open>null\<close>; a NumPy scalar outside the base types as \<open>null\<close> when \<open>np.isnan\<close> says NaN
  and as its \<open>item()\<close> is written otherwise; an \<open>np.float64\<close> that is a number as that
  number; a Timestamp, a datetime and a date as their \<open>isoformat()\<close> string; and an
  object that holds none of these is written as the base encoder writes it, dicts
  included (the \<open>dict\<close> branch of the hook is never reached by the encoder).
\<close>

lemma collect_cong:
  assumes "\<And>x. x \<in> set xs \<Longrightarrow> f x = g x"
  shows "collect (map f xs) = collect (map g xs)"
proof -
  have "map f xs = map g xs"
    using assms by (intro map_cong) auto
  then show ?thesis by (rule arg_cong)
qed

lemma plain_encode: "plain obj \<Longrightarrow> encode isoformat obj = base_encode obj"
proof (induction obj)
  case (PyList xs)
  then have "collect (map (encode isoformat) xs) = collect (map base_encode xs)"
    by (intro collect_cong) (auto simp: list_all_iff)
  then show ?case by simp
next
  case (PyDict kvs)
  have "collect (map (\<lambda>kv. encode isoformat (snd kv)) kvs) =
        collect (map (\<lambda>kv. base_encode (snd kv)) kvs)"
  proof (intro collect_cong)
    fix kv assume kv: "kv \<in> set kvs"
    with PyDict.prems have "plain (snd kv)" by (auto simp: list_all_iff)
    moreover from kv have "snd kv \<in> Basic_BNFs.snds kv" "kv \<in> set kvs" by (auto simp: snds.simps)
    ultimately show "encode isoformat (snd kv) = base_encode (snd kv)"
      using PyDict.IH by blast
  qed
  then show ?case by simp
qed (simp_all add: base_default_def)

theorem encoder_rules:
  "encode isoformat NaT = Inr ENull
   \<and> encode isoformat (NpGeneric (Inr True) item) = Inr ENull
   \<and> encode isoformat (NpGeneric (Inr False) item) = encode isoformat item
   \<and> encode isoformat (NpFloat64 (FNum x)) = encode isoformat (PyFloat (FNum x))
   \<and> encode isoformat (Timestamp t) = Inr (EStr (isoformat t))
   \<and> encode isoformat (Datetime t) = Inr (EStr (isoformat t))
   \<and> encode isoformat (Date t) = Inr (EStr (isoformat t))
   \<and> (plain obj \<longrightarrow> encode isoformat obj = base_encode obj)"
  by (simp add: plain_encode)

theorem encoder_rules_witness:
  "plain (PyDict [(''name'', PyStr ''A''), (''tags'', PyList [PyInt 1, PyNone])] :: string pyobj)
   \<and> encode id (PyDict [(''name'', PyStr ''A''), (''tags'', PyList [PyInt 1, PyNone])]) =
       Inr (EObj [(''name'', EStr ''A''), (''tags'', EArr [EInt 1, ENull])])
   \<and> base_encode (PyDict [(''name'', PyStr ''A''), (''tags'', PyList [PyInt 1, PyNone])] :: string pyobj) =
       Inr (EObj [(''name'', EStr ''A''), (''tags'', EArr [EInt 1, ENull])])
   \<and> encode id (PyList [Date ''2024-01-02'', NaT, NpGeneric (Inr False) (PyInt 7)]) =
       Inr (EArr [EStr ''2024-01-02'', ENull, EInt 7])"
  using encoder_rules [where isoformat = "id :: string \<Rightarrow> string"
      and obj = "PyDict [(''name'', PyStr ''A''), (''tags'', PyList [PyInt 1, PyNone])]"]
  by simp

text \<open>
  The hook called by itself, as a \<open>default_handler\<close> is: the rules for the listed
  classes, the \<open>dict\<close> branch (the dict of the same keys whose values went through the
  hook, raising when one of them raises), and the base hook for every other object.
\<close>

theorem default_rules:
  "default isoformat NaT = Inr PyNone
   \<and> default isoformat (NpGeneric (Inr True) item) = Inr PyNone
   \<and> default isoformat (NpGeneric (Inr False) item) = Inr item
   \<and> default isoformat (NpFloat64 FNaN) = Inr PyNone
   \<and> default isoformat (NpFloat64 (FNum x)) = Inr (PyFloat (FNum x))
   \<and> default isoformat (Timestamp t) = Inr (PyStr (isoformat t))
   \<and> default isoformat (Datetime t) = Inr (PyStr (isoformat t))
   \<and> default isoformat (Date t) = Inr (PyStr (isoformat t))
   \<and> (list_all2 (\<lambda>kv kv'. fst kv' = fst kv \<and> default isoformat (snd kv) = Inr (snd kv')) kvs kvs'
        \<longrightarrow> default isoformat (PyDict kvs) = Inr (PyDict kvs'))
   \<and> (list_ex (\<lambda>kv. isl (default isoformat (snd kv))) kvs \<longrightarrow> isl (default isoformat (PyDict kvs)))
   \<and> (\<not> listed_class obj \<and> \<not> is_dict obj \<longrightarrow> default isoformat obj = base_default obj)"
proof -
  have other: "\<not> listed_class obj \<and> \<not> is_dict obj \<longrightarrow> default isoformat obj = base_default obj"
    by (cases obj) (simp_all add: listed_class_def is_dict_def)
  have dict_ok:
    "list_all2 (\<lambda>kv kv'. fst kv' = fst kv \<and> default isoformat (snd kv) = Inr (snd kv')) kvs kvs'
     \<longrightarrow> default isoformat (PyDict kvs) = Inr (PyDict kvs')"
    by (simp add: default_items_all)
  have dict_raises:
    "list_ex (\<lambda>kv. isl (default isoformat (snd kv))) kvs \<longrightarrow> isl (default isoformat (PyDict kvs))"
    using default_items_raises [of isoformat kvs] by (auto split: sum.splits)
  show ?thesis
    using other dict_ok dict_raises by simp
qed

theorem default_rules_witness:
  "default id (PyDict [(''day'', Date ''2024-01-02''), (''gap'', NaT)]) =
     Inr (PyDict [(''day'', PyStr ''2024-01-02''), (''gap'', PyNone)])
   \<and> isl (default id (PyInt 3))
   \<and> isl (default id (PyDict [(''day'', Date ''2024-01-02''), (''n'', PyInt 3)]))
   \<and> \<not> listed_class (PyInt 3 :: string pyobj) \<and> \<not> is_dict (PyInt 3 :: string pyobj)
   \<and> default id (PyInt 3) = Inl TypeError"
  using
    default_rules [where isoformat = id
      and kvs = "[(''day'', Date ''2024-01-02''), (''gap'', NaT)]"
      and kvs' = "[(''day'', PyStr ''2024-01-02''), (''gap'', PyNone)]"
      and obj = "PyInt 3"]
    default_rules [where isoformat = id
      and kvs = "[(''day'', Date ''2024-01-02''), (''n'', PyInt 3)]"
      and obj = "PyInt 3"]
  by (simp add: listed_class_def is_dict_def base_default_def)

end
